theory Spec2Isabelle
  imports Main
begin

section \<open>The Haze language server (server/src/server.ts)\<close>

text \<open>
  The server is a set of handlers registered on a connection. The handlers share a few
  module-level variables; here these are the fields of \<open>server_state\<close>, every handler
  takes the state and returns the new one. What the handlers send to the client (the
  configuration requests, the refresh requests) is logged in the state, and so is every
  rejection of a promise that a handler drops. What the client
  answers, and what the document manager of the protocol library holds, are parameters
  of the handlers that read them.
\<close>

subsection \<open>Promises\<close>

text \<open>
  A \<open>Thenable\<close> is modelled by its outcome: fulfilled with a value, rejected with a
  reason, or never settled. An \<open>await\<close> on a rejected promise throws inside the
  \<open>async\<close> function, which rejects its own promise; an \<open>await\<close> on a promise that
  never settles never resumes.
\<close>

datatype 'a thenable = Fulfilled 'a | Rejected string | Pending

subsection \<open>Completion catalog\<close>

datatype TokenKind =
    Function
  | Intrinsic
  | Geometry
  | Byte
  | String
  | Nvr
  | Return
  | While
  | For
  | If
  | Else
  | Asm
  | Print
  | Dotmacro
  | Dotdefine
  | Dotorg
  | Dothook
  | Dotunhook
  | R0
  | R1
  | R2
  | R3
  | Move
  | Load
  | Copy
  | Save
  | Iadd
  | Isub
  | Band
  | Bior
  | Bxor
  | Call
  | Exit
  | Push
  | Pull
  | Brnz
  | Bool

text \<open>
  \<open>CompletionItemKind\<close> belongs to the protocol library; the server only uses
  \<open>Keyword\<close>. The \<open>data\<close> field of a completion item has type \<open>any\<close>: \<open>Some k\<close> is the
  member \<open>k\<close> of \<open>TokenKind\<close>, \<open>None\<close> is any other value (absent, or equal to no
  member), which the \<open>switch\<close> of the resolve handler, comparing with \<open>===\<close>, matches
  with no \<open>case\<close>. \<open>detail\<close> and \<open>documentation\<close> are optional fields.
\<close>

datatype CompletionItemKind = Keyword | OtherKind nat

record CompletionItem =
  label :: string
  kind :: CompletionItemKind
  data :: "TokenKind option"
  detail :: "string option"
  documentation :: "string option"

definition keyword :: "string \<Rightarrow> TokenKind \<Rightarrow> CompletionItem" where
  "keyword l k = \<lparr>label = l, kind = Keyword, data = Some k, detail = None, documentation = None\<rparr>"

text \<open>The position argument of the request is ignored, so it is left out.\<close>

definition onCompletion :: "CompletionItem list" where
  "onCompletion =
    [keyword ''function'' Function,
     keyword ''intrinsic'' Intrinsic,
     keyword ''geometry'' Geometry,
     keyword ''byte'' Byte,
     keyword ''string'' String,
     keyword ''nvr'' Nvr,
     keyword ''return'' Return,
     keyword ''while'' While,
     keyword ''for'' For,
     keyword ''if'' If,
     keyword ''else'' Else,
     keyword ''asm'' Asm,
     keyword ''print'' Print,
     keyword ''.macro'' Dotmacro,
     keyword ''.define'' Dotdefine,
     keyword ''.org'' Dotorg,
     keyword ''.hook'' Dothook,
     keyword ''.unhook'' Dotunhook,
     keyword ''r0'' R0,
     keyword ''r1'' R1,
     keyword ''r2'' R2,
     keyword ''r3'' R3,
     keyword ''move'' Move,
     keyword ''load'' Load,
     keyword ''save'' Save,
     keyword ''copy'' Copy,
     keyword ''iadd'' Iadd,
     keyword ''isub'' Isub,
     keyword ''band'' Band,
     keyword ''bior'' Bior,
     keyword ''bxor'' Bxor,
     keyword ''call'' Call,
     keyword ''exit'' Exit,
     keyword ''push'' Push,
     keyword ''pull'' Pull,
     keyword ''brnz'' Brnz,
     keyword ''bool'' Bool]"

definition attach :: "string \<Rightarrow> string \<Rightarrow> CompletionItem \<Rightarrow> CompletionItem" where
  "attach d doc item = item\<lparr>detail := Some d, documentation := Some doc\<rparr>"

text \<open>The \<open>case\<close>s of the \<open>switch\<close>, in the order of the source.\<close>

fun resolveCase :: "TokenKind \<Rightarrow> CompletionItem \<Rightarrow> CompletionItem" where
  "resolveCase Function item =
     attach ''function'' ''function {typename} {identifier} = ( {arguments} ) {statement}'' item"
| "resolveCase Intrinsic item = attach ''intrinsic'' ''intrinsic {identifier} = {value};'' item"
| "resolveCase Geometry item = attach ''geometry'' ''geometry {WIP};'' item"
| "resolveCase Byte item = attach ''byte'' ''byte {identifier} = {expression};'' item"
| "resolveCase String item =
     attach ''string'' (''string {identifier} = '' @ [CHR 0x22] @ ''{text}'' @ [CHR 0x22] @ '';'') item"
| "resolveCase Nvr item = attach ''nvr'' ''function nvr {identifier} = ...'' item"
| "resolveCase Return item = attach ''return'' ''return {expression};'' item"
| "resolveCase While item = attach ''while'' ''while ({expression}) {statement}'' item"
| "resolveCase For item =
     attach ''for'' ''for ({statement}; {expression}; {expression}) {statement}'' item"
| "resolveCase If item = attach ''if'' ''if ({expression}) {statement}'' item"
| "resolveCase Else item = attach ''else'' ''if ... else {statement}'' item"
| "resolveCase Asm item = attach ''asm'' ''asm { {commands} }'' item"
| "resolveCase Print item = attach ''print'' ''print({expression});'' item"
| "resolveCase Dotmacro item =
     attach ''.macro'' ''.macro {identifier} = ({arguments}): { {substitutions} }'' item"
| "resolveCase Dotdefine item = attach ''.define'' ''.define {identifier} = {constexpr}'' item"
| "resolveCase Dotorg item = attach ''.dotorg'' ''.dotorg {address}'' item"
| "resolveCase Dothook item = attach ''.hook'' ''.hook'' item"
| "resolveCase Dotunhook item = attach ''.unhook'' ''.unhook'' item"
| "resolveCase R0 item = attach ''r0'' ''r0'' item"
| "resolveCase R1 item = attach ''r1'' ''r1'' item"
| "resolveCase R2 item = attach ''r2'' ''r2'' item"
| "resolveCase R3 item = attach ''r3'' ''r3'' item"
| "resolveCase Move item = attach ''move'' ''move {dst-reg}, {src-reg}'' item"
| "resolveCase Load item = attach ''load'' ''load {dst-reg}, &{src-addr}'' item"
| "resolveCase Copy item = attach ''copy'' ''copy {dst-reg}, #{src-imm}'' item"
| "resolveCase Save item = attach ''save'' ''save &{dst-addr}, {src-reg}'' item"
| "resolveCase Iadd item = attach ''iadd'' ''iadd {dst-reg}, {src-reg}'' item"
| "resolveCase Isub item = attach ''isub'' ''isub {dst-reg}, {src-reg}'' item"
| "resolveCase Band item = attach ''band'' ''band {dst-reg}, {src-reg}'' item"
| "resolveCase Bior item = attach ''bior'' ''bior {dst-reg}, {src-reg}'' item"
| "resolveCase Bxor item = attach ''bxor'' ''bxor {dst-reg}, {src-reg}'' item"
| "resolveCase Call item = attach ''call'' ''call &{dst-addr}'' item"
| "resolveCase Exit item = attach ''exit'' ''exit'' item"
| "resolveCase Push item = attach ''push'' ''push {src-reg}'' item"
| "resolveCase Pull item = attach ''pull'' ''pull {dst-reg}'' item"
| "resolveCase Brnz item = attach ''brnz'' ''brnz &{dst-addr}, {src-reg}'' item"
| "resolveCase Bool item = attach ''bool'' ''bool {src-reg}'' item"

text \<open>A value of \<open>item.data\<close> that matches no \<open>case\<close> leaves the item as it came.\<close>

definition onCompletionResolve :: "CompletionItem \<Rightarrow> CompletionItem" where
  "onCompletionResolve item =
     (case data item of Some k \<Rightarrow> resolveCase k item | None \<Rightarrow> item)"

subsection \<open>Capability negotiation\<close>

text \<open>
  The capability descriptor of the client, with its optional fields as options. The
  types are those of the protocol library, cut down to the fields the server reads.
  The server's own \<open>capabilities\<close>, \<open>workspace\<close> and \<open>workspaceFolders\<close> are
  renamed, since a field name is declared once.
\<close>

record WorkspaceClientCapabilities =
  configuration :: "bool option"
  workspaceFolders :: "bool option"

record PublishDiagnosticsClientCapabilities =
  relatedInformation :: "bool option"

record TextDocumentClientCapabilities =
  publishDiagnostics :: "PublishDiagnosticsClientCapabilities option"

record ClientCapabilities =
  workspace :: "WorkspaceClientCapabilities option"
  textDocument :: "TextDocumentClientCapabilities option"

record InitializeParams =
  capabilities :: ClientCapabilities

datatype TextDocumentSyncKind = SyncNone | SyncFull | Incremental

record CompletionOptions =
  resolveProvider :: bool

record DiagnosticOptions =
  interFileDependencies :: bool
  workspaceDiagnostics :: bool

record WorkspaceFoldersServerCapabilities =
  supported :: bool

record WorkspaceServerCapabilities =
  serverWorkspaceFolders :: WorkspaceFoldersServerCapabilities

record ServerCapabilities =
  textDocumentSync :: TextDocumentSyncKind
  completionProvider :: CompletionOptions
  diagnosticProvider :: DiagnosticOptions
  serverWorkspace :: "WorkspaceServerCapabilities option"

record InitializeResult =
  serverCapabilities :: ServerCapabilities

text \<open>\<open>!!x\<close> on an optional boolean: absent and \<open>false\<close> are both falsy.\<close>

definition truthy :: "bool option \<Rightarrow> bool" where
  "truthy b = (b = Some True)"

subsection \<open>Settings and the state of the server\<close>

record HazeSettings =
  maxNumberOfProblems :: int

definition defaultSettings :: HazeSettings where
  "defaultSettings = \<lparr>maxNumberOfProblems = 1000\<rparr>"

text \<open>
  A configuration request as \<open>connection.workspace.getConfiguration\<close> sends it
  (\<open>sectionName\<close> is the source's \<open>section\<close>), and the client as the function that
  answers it.
\<close>

record ConfigurationItem =
  scopeUri :: string
  sectionName :: string

type_synonym client = "ConfigurationItem \<Rightarrow> HazeSettings thenable"

record server_state =
  hasConfigurationCapability :: bool
  hasWorkspaceFolderCapability :: bool
  hasDiagnosticRelatedInformationCapability :: bool
  globalSettings :: HazeSettings
  documentSettings :: "string \<rightharpoonup> HazeSettings thenable"
  configurationRequests :: "ConfigurationItem list"
  refreshRequests :: nat
  unhandledRejections :: "string list"

text \<open>The values of the module-level variables when the module is loaded.\<close>

definition initial_state :: server_state where
  "initial_state =
     \<lparr>hasConfigurationCapability = False,
      hasWorkspaceFolderCapability = False,
      hasDiagnosticRelatedInformationCapability = False,
      globalSettings = defaultSettings,
      documentSettings = Map.empty,
      configurationRequests = [],
      refreshRequests = 0,
      unhandledRejections = []\<rparr>"

definition onInitialize :: "InitializeParams \<Rightarrow> server_state \<Rightarrow> InitializeResult \<times> server_state" where
  "onInitialize params st =
     (let caps = capabilities params;
          st1 = st\<lparr>hasConfigurationCapability :=
                  (case workspace caps of None \<Rightarrow> False
                   | Some w \<Rightarrow> truthy (configuration w))\<rparr>;
          st2 = st1\<lparr>hasWorkspaceFolderCapability :=
                  (case workspace caps of None \<Rightarrow> False
                   | Some w \<Rightarrow> truthy (workspaceFolders w))\<rparr>;
          st3 = st2\<lparr>hasDiagnosticRelatedInformationCapability :=
                  (case textDocument caps of None \<Rightarrow> False
                   | Some td \<Rightarrow>
                       (case publishDiagnostics td of None \<Rightarrow> False
                        | Some pd \<Rightarrow> truthy (relatedInformation pd)))\<rparr>;
          result = \<lparr>serverCapabilities =
                     \<lparr>textDocumentSync = Incremental,
                      completionProvider = \<lparr>resolveProvider = True\<rparr>,
                      diagnosticProvider =
                        \<lparr>interFileDependencies = False, workspaceDiagnostics = False\<rparr>,
                      serverWorkspace = None\<rparr>\<rparr>
      in (if hasWorkspaceFolderCapability st3
          then result\<lparr>serverCapabilities := (serverCapabilities result)
                 \<lparr>serverWorkspace :=
                    Some \<lparr>serverWorkspaceFolders = \<lparr>supported = True\<rparr>\<rparr>\<rparr>\<rparr>
          else result, st3))"

text \<open>
  The parameters of a configuration-change notification. \<open>settings\<close> has type \<open>any\<close>:
  \<open>None\<close> is \<open>null\<close> or \<open>undefined\<close>, on which the property access
  \<open>change.settings.languageServerExample\<close> throws; \<open>languageServerExample\<close> is \<open>None\<close>
  when the property is absent or falsy.
\<close>

record ChangedSettings =
  languageServerExample :: "HazeSettings option"

record DidChangeConfigurationParams =
  settings :: "ChangedSettings option"

datatype error = TypeError

text \<open>
  \<open>connection.languages.diagnostics.refresh()\<close> sends a request to the client; the
  request is counted. The handler drops the promise of the client's answer, and that
  answer is not part of the model.
\<close>

definition refresh :: "server_state \<Rightarrow> server_state" where
  "refresh st = st\<lparr>refreshRequests := refreshRequests st + 1\<rparr>"

definition onDidChangeConfiguration ::
    "DidChangeConfigurationParams \<Rightarrow> server_state \<Rightarrow> error + server_state" where
  "onDidChangeConfiguration change st =
     (if hasConfigurationCapability st
      then Inr (refresh (st\<lparr>documentSettings := Map.empty\<rparr>))
      else (case settings change of
              None \<Rightarrow> Inl TypeError
            | Some s \<Rightarrow>
                Inr (refresh (st\<lparr>globalSettings :=
                  (case languageServerExample s of Some v \<Rightarrow> v
                   | None \<Rightarrow> defaultSettings)\<rparr>))))"

definition getDocumentSettings ::
    "client \<Rightarrow> string \<Rightarrow> server_state \<Rightarrow> HazeSettings thenable \<times> server_state" where
  "getDocumentSettings cl resource st =
     (if \<not> hasConfigurationCapability st then (Fulfilled (globalSettings st), st)
      else (case documentSettings st resource of
              Some result \<Rightarrow> (result, st)
            | None \<Rightarrow>
                (let item = \<lparr>scopeUri = resource, sectionName = ''haze-ls''\<rparr>;
                     result = cl item
                 in (result,
                     st\<lparr>documentSettings := (documentSettings st)(resource \<mapsto> result),
                        configurationRequests := configurationRequests st @ [item]\<rparr>))))"

definition onDidClose :: "string \<Rightarrow> server_state \<Rightarrow> server_state" where
  "onDidClose document_uri st =
     st\<lparr>documentSettings := (documentSettings st)(document_uri := None)\<rparr>"

subsection \<open>Diagnostics\<close>

text \<open>
  \<open>TextDocument\<close>, \<open>Diagnostic\<close> and the report are types of the protocol library.
  \<open>getText\<close> is the text of the document. The server builds no \<open>Diagnostic\<close> (the loop
  that did is commented out), so the record only gives the list its element type.
  \<open>reportKind\<close> is the report's \<open>kind\<close>.
\<close>

record TextDocument =
  uri :: string
  languageId :: string
  version :: int
  getText :: string

datatype DiagnosticSeverity = Error | Warning | Information | Hint

record Diagnostic =
  severity :: DiagnosticSeverity
  message :: string
  source :: string

datatype DocumentDiagnosticReportKind = Full | Unchanged

record DocumentDiagnosticReport =
  reportKind :: DocumentDiagnosticReportKind
  items :: "Diagnostic list"

text \<open>
  \<open>validateTextDocument\<close> awaits the settings, then returns the list \<open>diagnostics\<close>,
  to which nothing was pushed. The text and the settings are read and not used.
\<close>

definition validateTextDocument ::
    "client \<Rightarrow> TextDocument \<Rightarrow> server_state \<Rightarrow> Diagnostic list thenable \<times> server_state" where
  "validateTextDocument cl document st =
     (case getDocumentSettings cl (uri document) st of
        (Fulfilled settings', st') \<Rightarrow>
          (let text = getText document; diagnostics = [] in (Fulfilled diagnostics, st'))
      | (Rejected reason, st') \<Rightarrow> (Rejected reason, st')
      | (Pending, st') \<Rightarrow> (Pending, st'))"

text \<open>
  The handler of the pull request. \<open>documents\<close> is what the document manager holds
  when the request arrives.
\<close>

definition diagnostics_on ::
    "client \<Rightarrow> (string \<rightharpoonup> TextDocument) \<Rightarrow> string \<Rightarrow> server_state
      \<Rightarrow> DocumentDiagnosticReport thenable \<times> server_state" where
  "diagnostics_on cl documents textDocument_uri st =
     (case documents textDocument_uri of
        Some document \<Rightarrow>
          (case validateTextDocument cl document st of
             (Fulfilled ds, st') \<Rightarrow> (Fulfilled \<lparr>reportKind = Full, items = ds\<rparr>, st')
           | (Rejected reason, st') \<Rightarrow> (Rejected reason, st')
           | (Pending, st') \<Rightarrow> (Pending, st'))
      | None \<Rightarrow> (Fulfilled \<lparr>reportKind = Full, items = []\<rparr>, st))"

text \<open>
  The handler of a content change calls \<open>validateTextDocument\<close> and drops the promise
  it returns. When that promise is rejected no handler is attached to it: the rejection
  is unhandled, and is logged. What the runtime does on an unhandled rejection (Node
  ends the process) is not part of the server's code; a session whose log is not empty
  is one the process may not have lived through.
\<close>

definition onDidChangeContent :: "client \<Rightarrow> TextDocument \<Rightarrow> server_state \<Rightarrow> server_state" where
  "onDidChangeContent cl document st =
     (case validateTextDocument cl document st of
        (Fulfilled ds, st') \<Rightarrow> st'
      | (Rejected reason, st') \<Rightarrow> st'\<lparr>unhandledRejections := unhandledRejections st' @ [reason]\<rparr>
      | (Pending, st') \<Rightarrow> st')"

subsection \<open>Sessions\<close>

text \<open>
  A session is the handshake followed by the messages of the client in the order they
  arrive, each with the client that answers the configuration request the handler may
  send. A handler that throws leaves the state as it was.
\<close>

datatype message =
    DidChangeConfiguration DidChangeConfigurationParams
  | DidClose string
  | DidChangeContent TextDocument
  | PullDiagnostics "string \<rightharpoonup> TextDocument" string

fun handle :: "server_state \<Rightarrow> client \<times> message \<Rightarrow> server_state" where
  "handle st (cl, DidChangeConfiguration change) =
     (case onDidChangeConfiguration change st of Inl e \<Rightarrow> st | Inr st' \<Rightarrow> st')"
| "handle st (cl, DidClose document_uri) = onDidClose document_uri st"
| "handle st (cl, DidChangeContent document) = onDidChangeContent cl document st"
| "handle st (cl, PullDiagnostics documents textDocument_uri) =
     snd (diagnostics_on cl documents textDocument_uri st)"

definition session :: "InitializeParams \<Rightarrow> (client \<times> message) list \<Rightarrow> server_state" where
  "session params ms = foldl handle (snd (onInitialize params initial_state)) ms"

text \<open>
  The messages whose handlers remove the cached settings of a resource: every
  configuration change, and the close of that resource.
\<close>

fun invalidates :: "string \<Rightarrow> message \<Rightarrow> bool" where
  "invalidates r (DidChangeConfiguration change) = True"
| "invalidates r (DidClose document_uri) = (document_uri = r)"
| "invalidates r (DidChangeContent document) = False"
| "invalidates r (PullDiagnostics documents textDocument_uri) = False"

subsection \<open>Example inputs\<close>

text \<open>
  A client that declares nothing, a client that declares the \<open>workspace/configuration\<close>
  request and workspace folders, the document of the specification's example, a document
  manager that holds it, a client that answers every configuration request and one whose
  answer is a rejection.
\<close>

definition bare_params :: InitializeParams where
  "bare_params = \<lparr>capabilities = \<lparr>workspace = None, textDocument = None\<rparr>\<rparr>"

definition configuring_params :: InitializeParams where
  "configuring_params =
     \<lparr>capabilities =
        \<lparr>workspace = Some \<lparr>configuration = Some True, workspaceFolders = Some True\<rparr>,
         textDocument = Some \<lparr>publishDiagnostics = None\<rparr>\<rparr>\<rparr>"

definition a_hz :: TextDocument where
  "a_hz = \<lparr>uri = ''a.hz'', languageId = ''hz'', version = 1, getText = ''function main''\<rparr>"

definition b_hz :: TextDocument where
  "b_hz = \<lparr>uri = ''b.hz'', languageId = ''hz'', version = 4, getText = ''byte x = 1;''\<rparr>"

definition open_documents :: "string \<rightharpoonup> TextDocument" where
  "open_documents = [''a.hz'' \<mapsto> a_hz, ''b.hz'' \<mapsto> b_hz]"

definition answering_client :: client where
  "answering_client item = Fulfilled \<lparr>maxNumberOfProblems = 100\<rparr>"

definition rejecting_client :: client where
  "rejecting_client item = Rejected ''request failed''"

definition two_edits :: "(client \<times> message) list" where
  "two_edits = [(answering_client, DidChangeContent a_hz), (answering_client, DidChangeContent b_hz)]"

definition pulls_and_close :: "(client \<times> message) list" where
  "pulls_and_close =
     [(answering_client, PullDiagnostics open_documents ''a.hz''),
      (answering_client, PullDiagnostics open_documents ''b.hz''),
      (answering_client, DidClose ''a.hz'')]"

definition later_messages :: "(client \<times> message) list" where
  "later_messages =
     [(rejecting_client, DidChangeContent b_hz),
      (rejecting_client, PullDiagnostics open_documents ''a.hz''),
      (rejecting_client, DidClose ''b.hz'')]"

section \<open>Properties\<close>

subsection \<open>Settings\<close>

lemma getDocumentSettings_global:
  "\<not> hasConfigurationCapability st
   \<Longrightarrow> getDocumentSettings cl r st = (Fulfilled (globalSettings st), st)"
  by (simp add: getDocumentSettings_def)

lemma getDocumentSettings_cached:
  "hasConfigurationCapability st \<Longrightarrow> documentSettings st r = Some v
   \<Longrightarrow> getDocumentSettings cl r st = (v, st)"
  by (simp add: getDocumentSettings_def)

lemma getDocumentSettings_query:
  "hasConfigurationCapability st \<Longrightarrow> documentSettings st r = None
   \<Longrightarrow> getDocumentSettings cl r st
       = (cl \<lparr>scopeUri = r, sectionName = ''haze-ls''\<rparr>,
          st\<lparr>documentSettings :=
               (documentSettings st)(r \<mapsto> cl \<lparr>scopeUri = r, sectionName = ''haze-ls''\<rparr>),
             configurationRequests :=
               configurationRequests st @ [\<lparr>scopeUri = r, sectionName = ''haze-ls''\<rparr>]\<rparr>)"
  by (simp add: getDocumentSettings_def Let_def)

lemma getDocumentSettings_capability:
  "hasConfigurationCapability (snd (getDocumentSettings cl r st)) = hasConfigurationCapability st"
  by (simp add: getDocumentSettings_def Let_def split: option.split)

text \<open>A get for any resource leaves a cached entry, and the requests scoped to it, alone.\<close>

lemma getDocumentSettings_keeps:
  assumes "hasConfigurationCapability st" and "documentSettings st r = Some v"
  shows "documentSettings (snd (getDocumentSettings cl r' st)) r = Some v"
    and "filter (\<lambda>q. scopeUri q = r) (configurationRequests (snd (getDocumentSettings cl r' st)))
         = filter (\<lambda>q. scopeUri q = r) (configurationRequests st)"
  using assms by (auto simp: getDocumentSettings_def Let_def split: option.split)

lemma validateTextDocument_state:
  "snd (validateTextDocument cl document st) = snd (getDocumentSettings cl (uri document) st)"
  by (simp add: validateTextDocument_def Let_def split: prod.split thenable.split)

lemma validateTextDocument_result:
  "fst (validateTextDocument cl document st)
     = (case fst (getDocumentSettings cl (uri document) st) of
          Fulfilled s \<Rightarrow> Fulfilled [] | Rejected reason \<Rightarrow> Rejected reason | Pending \<Rightarrow> Pending)"
  by (simp add: validateTextDocument_def Let_def split: prod.split thenable.split)

lemma diagnostics_on_state:
  "snd (diagnostics_on cl documents u st)
     = (case documents u of None \<Rightarrow> st
        | Some document \<Rightarrow> snd (getDocumentSettings cl (uri document) st))"
  by (simp add: diagnostics_on_def validateTextDocument_state [symmetric]
      split: option.split prod.split thenable.split)

lemma diagnostics_on_result:
  "documents u = Some document
   \<Longrightarrow> fst (diagnostics_on cl documents u st)
     = (case fst (getDocumentSettings cl (uri document) st) of
          Fulfilled s \<Rightarrow> Fulfilled \<lparr>reportKind = Full, items = []\<rparr>
        | Rejected reason \<Rightarrow> Rejected reason | Pending \<Rightarrow> Pending)"
proof -
  assume known: "documents u = Some document"
  obtain p st' where v: "validateTextDocument cl document st = (p, st')"
    by (cases "validateTextDocument cl document st")
  with validateTextDocument_result [of cl document st]
  have "p = (case fst (getDocumentSettings cl (uri document) st) of
          Fulfilled s \<Rightarrow> Fulfilled [] | Rejected reason \<Rightarrow> Rejected reason | Pending \<Rightarrow> Pending)"
    by simp
  with v known show ?thesis
    by (cases "fst (getDocumentSettings cl (uri document) st)")
      (simp_all add: diagnostics_on_def)
qed

lemma diagnostics_on_unhandled:
  "unhandledRejections (snd (diagnostics_on cl documents u st)) = unhandledRejections st"
  by (simp add: diagnostics_on_state getDocumentSettings_def Let_def split: option.split)

lemma onDidChangeContent_state:
  "hasConfigurationCapability (onDidChangeContent cl document st)
     = hasConfigurationCapability (snd (getDocumentSettings cl (uri document) st))"
  "documentSettings (onDidChangeContent cl document st)
     = documentSettings (snd (getDocumentSettings cl (uri document) st))"
  "configurationRequests (onDidChangeContent cl document st)
     = configurationRequests (snd (getDocumentSettings cl (uri document) st))"
  by (simp_all add: onDidChangeContent_def validateTextDocument_state [symmetric]
      split: prod.split thenable.split)

subsection \<open>Sessions\<close>

lemma handle_capability:
  "hasConfigurationCapability (handle st m) = hasConfigurationCapability st"
proof (cases m)
  case (Pair cl msg)
  then show ?thesis
    by (cases msg)
      (simp_all add: onDidChangeConfiguration_def refresh_def onDidClose_def
        onDidChangeContent_state diagnostics_on_state
        getDocumentSettings_capability split: option.split)
qed

lemma handle_guard:
  assumes "hasConfigurationCapability st \<or> documentSettings st = Map.empty"
  shows "hasConfigurationCapability (handle st m) \<or> documentSettings (handle st m) = Map.empty"
proof (cases "hasConfigurationCapability st")
  case True
  then show ?thesis by (simp add: handle_capability)
next
  case False
  with assms have empty: "documentSettings st = Map.empty" by simp
  obtain cl msg where m: "m = (cl, msg)" by (cases m)
  from False empty have "documentSettings (handle st (cl, msg)) = Map.empty"
    by (cases msg)
      (simp_all add: onDidChangeConfiguration_def refresh_def onDidClose_def
        onDidChangeContent_state diagnostics_on_state
        getDocumentSettings_global split: option.split)
  with m show ?thesis by simp
qed

lemma foldl_handle_guard:
  "hasConfigurationCapability st \<or> documentSettings st = Map.empty
   \<Longrightarrow> hasConfigurationCapability (foldl handle st ms)
       \<or> documentSettings (foldl handle st ms) = Map.empty"
  by (induction ms arbitrary: st) (simp_all add: handle_guard)

lemma session_guard:
  "hasConfigurationCapability (session params ms)
   \<or> documentSettings (session params ms) = Map.empty"
  unfolding session_def
  by (rule foldl_handle_guard) (simp add: onInitialize_def initial_state_def Let_def)

text \<open>A message that does not invalidate a cached entry leaves it, and the requests
  scoped to its resource, alone.\<close>

lemma handle_keeps:
  assumes "hasConfigurationCapability st" and "documentSettings st r = Some v"
    and "\<not> invalidates r (snd m)"
  shows "documentSettings (handle st m) r = Some v
    \<and> filter (\<lambda>q. scopeUri q = r) (configurationRequests (handle st m))
         = filter (\<lambda>q. scopeUri q = r) (configurationRequests st)"
proof -
  obtain cl msg where m: "m = (cl, msg)" by (cases m)
  from assms m show ?thesis
    by (cases msg)
      (simp_all add: onDidClose_def onDidChangeContent_state
        diagnostics_on_state getDocumentSettings_keeps split: option.split)
qed

lemma foldl_handle_keeps:
  "hasConfigurationCapability st \<Longrightarrow> documentSettings st r = Some v
   \<Longrightarrow> \<forall>m \<in> set ms. \<not> invalidates r (snd m)
   \<Longrightarrow> hasConfigurationCapability (foldl handle st ms)
     \<and> documentSettings (foldl handle st ms) r = Some v
     \<and> filter (\<lambda>q. scopeUri q = r) (configurationRequests (foldl handle st ms))
         = filter (\<lambda>q. scopeUri q = r) (configurationRequests st)"
proof (induction ms arbitrary: st)
  case Nil
  then show ?case by simp
next
  case (Cons m ms)
  from Cons.prems have keep: "documentSettings (handle st m) r = Some v"
    and same: "filter (\<lambda>q. scopeUri q = r) (configurationRequests (handle st m))
         = filter (\<lambda>q. scopeUri q = r) (configurationRequests st)"
    using handle_keeps [of st r v m] by simp_all
  from Cons.prems have cap: "hasConfigurationCapability (handle st m)"
    by (simp add: handle_capability)
  from Cons.prems have rest: "\<forall>m \<in> set ms. \<not> invalidates r (snd m)" by simp
  from Cons.IH [OF cap keep rest] same show ?case by simp
qed

subsection \<open>Initialization\<close>

text \<open>
  C1. Whatever capability descriptor the client sends, with any of its optional fields
  missing, and whatever the state, the initialize handler returns a result that declares
  incremental text synchronization, completion with resolve support, and a diagnostic
  provider with \<open>interFileDependencies\<close> and \<open>workspaceDiagnostics\<close> both false. The
  result advertises workspace folders exactly when the descriptor has a \<open>workspace\<close>
  field whose \<open>workspaceFolders\<close> is declared (present and true); otherwise it has no
  \<open>workspace\<close> field.
\<close>

theorem onInitialize_result:
  "textDocumentSync (serverCapabilities (fst (onInitialize params st))) = Incremental
   \<and> completionProvider (serverCapabilities (fst (onInitialize params st)))
       = \<lparr>resolveProvider = True\<rparr>
   \<and> diagnosticProvider (serverCapabilities (fst (onInitialize params st)))
       = \<lparr>interFileDependencies = False, workspaceDiagnostics = False\<rparr>
   \<and> (serverWorkspace (serverCapabilities (fst (onInitialize params st)))
         = Some \<lparr>serverWorkspaceFolders = \<lparr>supported = True\<rparr>\<rparr>)
       = (\<exists>w. workspace (capabilities params) = Some w \<and> workspaceFolders w = Some True)
   \<and> (serverWorkspace (serverCapabilities (fst (onInitialize params st))) = None)
       = (\<not> (\<exists>w. workspace (capabilities params) = Some w \<and> workspaceFolders w = Some True))"
  by (cases "workspace (capabilities params)")
    (simp_all add: onInitialize_def Let_def truthy_def)

theorem onInitialize_result_witness:
  "serverCapabilities (fst (onInitialize bare_params initial_state))
     = \<lparr>textDocumentSync = Incremental,
        completionProvider = \<lparr>resolveProvider = True\<rparr>,
        diagnosticProvider = \<lparr>interFileDependencies = False, workspaceDiagnostics = False\<rparr>,
        serverWorkspace = None\<rparr>
   \<and> serverCapabilities (fst (onInitialize configuring_params initial_state))
     = \<lparr>textDocumentSync = Incremental,
        completionProvider = \<lparr>resolveProvider = True\<rparr>,
        diagnosticProvider = \<lparr>interFileDependencies = False, workspaceDiagnostics = False\<rparr>,
        serverWorkspace = Some \<lparr>serverWorkspaceFolders = \<lparr>supported = True\<rparr>\<rparr>\<rparr>"
  using onInitialize_result [of bare_params initial_state]
    onInitialize_result [of configuring_params initial_state]
  by (simp add: bare_params_def configuring_params_def onInitialize_def Let_def truthy_def)

subsection \<open>Pulled diagnostics\<close>

text \<open>
  C2. For a URI under which the document manager holds no document, the handler of the
  pull request answers with a full report whose list of items is empty. It does so
  whatever the client would answer to a configuration request (none is sent), it does not
  reject, and it leaves the state as it was.
\<close>

theorem pull_unknown_document:
  "documents u = None
   \<Longrightarrow> diagnostics_on cl documents u st = (Fulfilled \<lparr>reportKind = Full, items = []\<rparr>, st)"
  by (simp add: diagnostics_on_def)

theorem pull_unknown_document_witness:
  "open_documents ''c.hz'' = None
   \<and> diagnostics_on rejecting_client open_documents ''c.hz'' (session configuring_params [])
       = (Fulfilled \<lparr>reportKind = Full, items = []\<rparr>, session configuring_params [])"
proof -
  have unknown: "open_documents ''c.hz'' = None"
    by (simp add: open_documents_def)
  from pull_unknown_document [of open_documents "''c.hz''" rejecting_client
      "session configuring_params []"] unknown
  show ?thesis
    by simp
qed

text \<open>
  C3, as stated, fails: a document the document manager holds does not always get a
  report. In a session with the configuration capability, when the client rejects the
  configuration request that the pull sends for the document \<open>b.hz\<close>, the pull is
  rejected with the reason of the client, and no report is returned.
\<close>

theorem pull_known_document_counterexample:
  "open_documents ''b.hz'' = Some b_hz
   \<and> hasConfigurationCapability (session configuring_params [])
   \<and> fst (diagnostics_on rejecting_client open_documents ''b.hz''
        (session configuring_params [])) = Rejected ''request failed''
   \<and> fst (diagnostics_on rejecting_client open_documents ''b.hz''
        (session configuring_params [])) \<noteq> Fulfilled \<lparr>reportKind = Full, items = []\<rparr>"
  by (simp add: session_def onInitialize_def Let_def configuring_params_def
      initial_state_def truthy_def validateTextDocument_def diagnostics_on_def
      getDocumentSettings_def b_hz_def open_documents_def rejecting_client_def)

text \<open>
  C3, amended. For a document the document manager holds, whatever its text: whenever
  the settings lookup for it yields settings, whatever they are, the validation function
  produces the empty list of diagnostics and the handler of the pull request answers
  with a report of kind full whose list of items is empty. The lookup yields settings in
  every session without the configuration capability; with the capability it does when
  the cached answer of the client is fulfilled, or when none is cached and the client
  fulfils the request. No answer of the handler, for any document, client or state, is a
  report of kind unchanged.
\<close>

theorem pull_known_document:
  "(documents u = Some document
      \<and> fst (getDocumentSettings cl (uri document) st) = Fulfilled s
    \<longrightarrow> fst (validateTextDocument cl document st) = Fulfilled []
      \<and> fst (diagnostics_on cl documents u st) = Fulfilled \<lparr>reportKind = Full, items = []\<rparr>)
   \<and> (documents u = Some document \<and> \<not> hasConfigurationCapability st
    \<longrightarrow> diagnostics_on cl documents u st = (Fulfilled \<lparr>reportKind = Full, items = []\<rparr>, st))
   \<and> (documents u = Some document \<and> hasConfigurationCapability st
      \<and> documentSettings st (uri document) = Some (Fulfilled s)
    \<longrightarrow> diagnostics_on cl documents u st = (Fulfilled \<lparr>reportKind = Full, items = []\<rparr>, st))
   \<and> (documents u = Some document \<and> hasConfigurationCapability st
      \<and> documentSettings st (uri document) = None
      \<and> cl \<lparr>scopeUri = uri document, sectionName = ''haze-ls''\<rparr> = Fulfilled s
    \<longrightarrow> fst (diagnostics_on cl documents u st) = Fulfilled \<lparr>reportKind = Full, items = []\<rparr>)
   \<and> fst (diagnostics_on cl documents u st) \<noteq> Fulfilled \<lparr>reportKind = Unchanged, items = ds\<rparr>"
proof -
  have full: "documents u = Some document
      \<and> fst (getDocumentSettings cl (uri document) st) = Fulfilled s
    \<longrightarrow> fst (validateTextDocument cl document st) = Fulfilled []
      \<and> fst (diagnostics_on cl documents u st) = Fulfilled \<lparr>reportKind = Full, items = []\<rparr>"
    by (simp add: validateTextDocument_result diagnostics_on_result)
  have global: "documents u = Some document \<and> \<not> hasConfigurationCapability st
    \<longrightarrow> diagnostics_on cl documents u st = (Fulfilled \<lparr>reportKind = Full, items = []\<rparr>, st)"
    by (simp add: prod_eq_iff diagnostics_on_result diagnostics_on_state
        getDocumentSettings_global)
  have cached: "documents u = Some document \<and> hasConfigurationCapability st
      \<and> documentSettings st (uri document) = Some (Fulfilled s)
    \<longrightarrow> diagnostics_on cl documents u st = (Fulfilled \<lparr>reportKind = Full, items = []\<rparr>, st)"
    by (simp add: prod_eq_iff diagnostics_on_result diagnostics_on_state
        getDocumentSettings_cached)
  have fresh: "documents u = Some document \<and> hasConfigurationCapability st
      \<and> documentSettings st (uri document) = None
      \<and> cl \<lparr>scopeUri = uri document, sectionName = ''haze-ls''\<rparr> = Fulfilled s
    \<longrightarrow> fst (diagnostics_on cl documents u st) = Fulfilled \<lparr>reportKind = Full, items = []\<rparr>"
    by (simp add: diagnostics_on_result getDocumentSettings_query)
  have never: "fst (diagnostics_on cl documents u st)
      \<noteq> Fulfilled \<lparr>reportKind = Unchanged, items = ds\<rparr>"
  proof (cases "documents u")
    case None
    then show ?thesis by (simp add: diagnostics_on_def)
  next
    case (Some d)
    then show ?thesis
      by (cases "fst (getDocumentSettings cl (uri d) st)")
        (simp_all add: diagnostics_on_result)
  qed
  from full global cached fresh never show ?thesis
    by (intro conjI)
qed

theorem pull_known_document_witness:
  "open_documents ''a.hz'' = Some a_hz
   \<and> getText a_hz = ''function main''
   \<and> fst (getDocumentSettings answering_client (uri a_hz) (session configuring_params []))
       = Fulfilled \<lparr>maxNumberOfProblems = 100\<rparr>
   \<and> fst (validateTextDocument answering_client a_hz (session configuring_params []))
       = Fulfilled []
   \<and> fst (diagnostics_on answering_client open_documents ''a.hz'' (session configuring_params []))
       = Fulfilled \<lparr>reportKind = Full, items = []\<rparr>
   \<and> \<not> hasConfigurationCapability (session bare_params [])
   \<and> diagnostics_on rejecting_client open_documents ''a.hz'' (session bare_params [])
       = (Fulfilled \<lparr>reportKind = Full, items = []\<rparr>, session bare_params [])
   \<and> documentSettings (session configuring_params two_edits) (uri a_hz)
       = Some (Fulfilled \<lparr>maxNumberOfProblems = 100\<rparr>)
   \<and> diagnostics_on rejecting_client open_documents ''a.hz'' (session configuring_params two_edits)
       = (Fulfilled \<lparr>reportKind = Full, items = []\<rparr>, session configuring_params two_edits)"
proof -
  have known: "open_documents ''a.hz'' = Some a_hz"
    by (simp add: open_documents_def)
  have content: "getText a_hz = ''function main''"
    by (simp add: a_hz_def)
  have cap: "hasConfigurationCapability (session configuring_params [])"
    and none: "documentSettings (session configuring_params []) (uri a_hz) = None"
    by (simp_all add: session_def onInitialize_def Let_def configuring_params_def
        initial_state_def truthy_def)
  have answer: "answering_client \<lparr>scopeUri = uri a_hz, sectionName = ''haze-ls''\<rparr>
      = Fulfilled \<lparr>maxNumberOfProblems = 100\<rparr>"
    by (simp add: answering_client_def)
  from cap none answer
  have settled: "fst (getDocumentSettings answering_client (uri a_hz)
      (session configuring_params [])) = Fulfilled \<lparr>maxNumberOfProblems = 100\<rparr>"
    by (simp add: getDocumentSettings_query)
  have bare: "\<not> hasConfigurationCapability (session bare_params [])"
    by (simp add: session_def onInitialize_def Let_def bare_params_def initial_state_def)
  have cap2: "hasConfigurationCapability (session configuring_params two_edits)"
    and cached: "documentSettings (session configuring_params two_edits) (uri a_hz)
      = Some (Fulfilled \<lparr>maxNumberOfProblems = 100\<rparr>)"
    by (simp_all add: session_def two_edits_def onInitialize_def Let_def configuring_params_def
        initial_state_def truthy_def onDidChangeContent_state
        getDocumentSettings_def a_hz_def b_hz_def answering_client_def)
  note first = pull_known_document
    [where documents = open_documents and u = "''a.hz''" and document = a_hz
      and cl = answering_client and st = "session configuring_params []"
      and s = "\<lparr>maxNumberOfProblems = 100\<rparr>"]
  note second = pull_known_document
    [where documents = open_documents and u = "''a.hz''" and document = a_hz
      and cl = rejecting_client and st = "session bare_params []"]
  note third = pull_known_document
    [where documents = open_documents and u = "''a.hz''" and document = a_hz
      and cl = rejecting_client and st = "session configuring_params two_edits"
      and s = "\<lparr>maxNumberOfProblems = 100\<rparr>"]
  from first known settled
  have one: "fst (validateTextDocument answering_client a_hz (session configuring_params []))
       = Fulfilled []
     \<and> fst (diagnostics_on answering_client open_documents ''a.hz''
          (session configuring_params [])) = Fulfilled \<lparr>reportKind = Full, items = []\<rparr>"
    by simp
  from second known bare
  have two: "diagnostics_on rejecting_client open_documents ''a.hz'' (session bare_params [])
       = (Fulfilled \<lparr>reportKind = Full, items = []\<rparr>, session bare_params [])"
    by simp
  from third known cap2 cached
  have three: "diagnostics_on rejecting_client open_documents ''a.hz''
        (session configuring_params two_edits)
       = (Fulfilled \<lparr>reportKind = Full, items = []\<rparr>, session configuring_params two_edits)"
    by simp
  from known content settled one bare two cached three show ?thesis
    by simp
qed

subsection \<open>The settings cache\<close>

text \<open>
  C4. Without the configuration capability, a settings get returns the global settings
  and leaves the state as it was: the cache is not touched and no request is sent. With
  the capability, the first get for a resource (no entry cached for it) sends exactly one
  configuration request, scoped to the resource and to the section \<open>haze-ls\<close>, and caches
  what the client answers under the resource. From then on, after any messages that do
  not invalidate the entry (no configuration change, no close of that resource), and
  whatever the client would answer now, a get for the resource returns the cached answer,
  leaves the state as it was, and the requests sent for the resource are still that one.
\<close>

theorem getDocumentSettings_memoizes:
  "(\<not> hasConfigurationCapability st
      \<longrightarrow> getDocumentSettings cl r st = (Fulfilled (globalSettings st), st))
   \<and> (hasConfigurationCapability st \<and> documentSettings st r = None
      \<longrightarrow> getDocumentSettings cl r st
            = (cl \<lparr>scopeUri = r, sectionName = ''haze-ls''\<rparr>,
               st\<lparr>documentSettings :=
                    (documentSettings st)(r \<mapsto> cl \<lparr>scopeUri = r, sectionName = ''haze-ls''\<rparr>),
                  configurationRequests :=
                    configurationRequests st @ [\<lparr>scopeUri = r, sectionName = ''haze-ls''\<rparr>]\<rparr>)
        \<and> (\<forall>ms cl'. (\<forall>m \<in> set ms. \<not> invalidates r (snd m))
             \<longrightarrow> getDocumentSettings cl' r (foldl handle (snd (getDocumentSettings cl r st)) ms)
                   = (cl \<lparr>scopeUri = r, sectionName = ''haze-ls''\<rparr>,
                      foldl handle (snd (getDocumentSettings cl r st)) ms)
               \<and> filter (\<lambda>q. scopeUri q = r)
                    (configurationRequests (foldl handle (snd (getDocumentSettings cl r st)) ms))
                   = filter (\<lambda>q. scopeUri q = r) (configurationRequests st)
                     @ [\<lparr>scopeUri = r, sectionName = ''haze-ls''\<rparr>]))"
proof (intro conjI impI allI)
  assume "\<not> hasConfigurationCapability st"
  then show "getDocumentSettings cl r st = (Fulfilled (globalSettings st), st)"
    by (rule getDocumentSettings_global)
next
  assume "hasConfigurationCapability st \<and> documentSettings st r = None"
  then show "getDocumentSettings cl r st
            = (cl \<lparr>scopeUri = r, sectionName = ''haze-ls''\<rparr>,
               st\<lparr>documentSettings :=
                    (documentSettings st)(r \<mapsto> cl \<lparr>scopeUri = r, sectionName = ''haze-ls''\<rparr>),
                  configurationRequests :=
                    configurationRequests st @ [\<lparr>scopeUri = r, sectionName = ''haze-ls''\<rparr>]\<rparr>)"
    by (simp add: getDocumentSettings_query)
next
  fix ms :: "(client \<times> message) list" and cl' :: client
  assume first: "hasConfigurationCapability st \<and> documentSettings st r = None"
    and valid: "\<forall>m \<in> set ms. \<not> invalidates r (snd m)"
  let ?q = "\<lparr>scopeUri = r, sectionName = ''haze-ls''\<rparr>"
  let ?st1 = "snd (getDocumentSettings cl r st)"
  from first have cap: "hasConfigurationCapability ?st1"
    and cached: "documentSettings ?st1 r = Some (cl ?q)"
    and sent: "configurationRequests ?st1 = configurationRequests st @ [?q]"
    by (simp_all add: getDocumentSettings_query)
  from foldl_handle_keeps [OF cap cached valid]
  have cap2: "hasConfigurationCapability (foldl handle ?st1 ms)"
    and cached2: "documentSettings (foldl handle ?st1 ms) r = Some (cl ?q)"
    and sent2: "filter (\<lambda>q. scopeUri q = r) (configurationRequests (foldl handle ?st1 ms))
         = filter (\<lambda>q. scopeUri q = r) (configurationRequests ?st1)"
    by simp_all
  from cap2 cached2
  show "getDocumentSettings cl' r (foldl handle ?st1 ms) = (cl ?q, foldl handle ?st1 ms)"
    by (rule getDocumentSettings_cached)
  from sent2 sent
  show "filter (\<lambda>q. scopeUri q = r) (configurationRequests (foldl handle ?st1 ms))
         = filter (\<lambda>q. scopeUri q = r) (configurationRequests st) @ [?q]"
    by simp
qed

theorem getDocumentSettings_memoizes_witness:
  "\<not> hasConfigurationCapability (session bare_params [])
   \<and> getDocumentSettings rejecting_client ''a.hz'' (session bare_params [])
       = (Fulfilled defaultSettings, session bare_params [])
   \<and> hasConfigurationCapability (session configuring_params [])
   \<and> documentSettings (session configuring_params []) ''a.hz'' = None
   \<and> fst (getDocumentSettings answering_client ''a.hz'' (session configuring_params []))
       = Fulfilled \<lparr>maxNumberOfProblems = 100\<rparr>
   \<and> configurationRequests
        (snd (getDocumentSettings answering_client ''a.hz'' (session configuring_params [])))
       = [\<lparr>scopeUri = ''a.hz'', sectionName = ''haze-ls''\<rparr>]
   \<and> fst (getDocumentSettings rejecting_client ''a.hz''
        (foldl handle
          (snd (getDocumentSettings answering_client ''a.hz'' (session configuring_params [])))
          later_messages))
       = Fulfilled \<lparr>maxNumberOfProblems = 100\<rparr>
   \<and> filter (\<lambda>q. scopeUri q = ''a.hz'')
        (configurationRequests (snd (getDocumentSettings rejecting_client ''a.hz''
          (foldl handle
            (snd (getDocumentSettings answering_client ''a.hz'' (session configuring_params [])))
            later_messages))))
       = [\<lparr>scopeUri = ''a.hz'', sectionName = ''haze-ls''\<rparr>]"
proof -
  have bare: "\<not> hasConfigurationCapability (session bare_params [])"
    and global: "globalSettings (session bare_params []) = defaultSettings"
    by (simp_all add: session_def onInitialize_def Let_def bare_params_def initial_state_def)
  have cap: "hasConfigurationCapability (session configuring_params [])"
    and fresh: "documentSettings (session configuring_params []) ''a.hz'' = None"
    and none_sent: "configurationRequests (session configuring_params []) = []"
    by (simp_all add: session_def onInitialize_def Let_def configuring_params_def
        initial_state_def truthy_def)
  have valid: "\<forall>m \<in> set later_messages. \<not> invalidates ''a.hz'' (snd m)"
    by (simp add: later_messages_def)
  have answer: "answering_client \<lparr>scopeUri = ''a.hz'', sectionName = ''haze-ls''\<rparr>
      = Fulfilled \<lparr>maxNumberOfProblems = 100\<rparr>"
    by (simp add: answering_client_def)
  note thm1 = getDocumentSettings_memoizes
    [of "session bare_params []" rejecting_client "''a.hz''"]
  note thm2 = getDocumentSettings_memoizes
    [of "session configuring_params []" answering_client "''a.hz''"]
  from thm1 bare global
  have one: "getDocumentSettings rejecting_client ''a.hz'' (session bare_params [])
       = (Fulfilled defaultSettings, session bare_params [])"
    by simp
  from thm2 cap fresh
  have two: "getDocumentSettings answering_client ''a.hz'' (session configuring_params [])
      = (answering_client \<lparr>scopeUri = ''a.hz'', sectionName = ''haze-ls''\<rparr>,
         (session configuring_params [])\<lparr>documentSettings :=
              (documentSettings (session configuring_params []))
                (''a.hz'' \<mapsto> answering_client \<lparr>scopeUri = ''a.hz'', sectionName = ''haze-ls''\<rparr>),
            configurationRequests :=
              configurationRequests (session configuring_params [])
                @ [\<lparr>scopeUri = ''a.hz'', sectionName = ''haze-ls''\<rparr>]\<rparr>)"
    by blast
  from thm2 cap fresh valid
  have three: "getDocumentSettings rejecting_client ''a.hz''
        (foldl handle
          (snd (getDocumentSettings answering_client ''a.hz'' (session configuring_params [])))
          later_messages)
      = (answering_client \<lparr>scopeUri = ''a.hz'', sectionName = ''haze-ls''\<rparr>,
         foldl handle
          (snd (getDocumentSettings answering_client ''a.hz'' (session configuring_params [])))
          later_messages)
    \<and> filter (\<lambda>q. scopeUri q = ''a.hz'')
        (configurationRequests (foldl handle
          (snd (getDocumentSettings answering_client ''a.hz'' (session configuring_params [])))
          later_messages))
      = filter (\<lambda>q. scopeUri q = ''a.hz'') (configurationRequests (session configuring_params []))
        @ [\<lparr>scopeUri = ''a.hz'', sectionName = ''haze-ls''\<rparr>]"
    by blast
  from bare one cap fresh two three answer none_sent show ?thesis
    by simp
qed

text \<open>
  C5. In every session, once a configuration-change notification has been processed the
  settings cache is empty: every entry cached before is gone. For every resource that
  had a cached entry (its settings had been queried), the handler did not throw, and the
  next settings get for it sends a new configuration request scoped to it and caches the
  answer of the client.
\<close>

theorem configuration_change_clears_cache:
  assumes "st = session params ms"
    and "st' = handle st (cl0, DidChangeConfiguration change)"
  shows "documentSettings st' = Map.empty
    \<and> (\<forall>r \<in> dom (documentSettings st).
          onDidChangeConfiguration change st = Inr st'
          \<and> getDocumentSettings cl r st'
              = (cl \<lparr>scopeUri = r, sectionName = ''haze-ls''\<rparr>,
                 st'\<lparr>documentSettings := [r \<mapsto> cl \<lparr>scopeUri = r, sectionName = ''haze-ls''\<rparr>],
                    configurationRequests :=
                      configurationRequests st' @ [\<lparr>scopeUri = r, sectionName = ''haze-ls''\<rparr>]\<rparr>))"
proof (cases "hasConfigurationCapability st")
  case True
  with assms have step: "onDidChangeConfiguration change st = Inr st'"
    and st': "st' = refresh (st\<lparr>documentSettings := Map.empty\<rparr>)"
    by (simp_all add: onDidChangeConfiguration_def)
  from st' True have cleared: "documentSettings st' = Map.empty"
    and cap: "hasConfigurationCapability st'"
    by (simp_all add: refresh_def)
  from cap cleared
  have "getDocumentSettings cl r st'
      = (cl \<lparr>scopeUri = r, sectionName = ''haze-ls''\<rparr>,
         st'\<lparr>documentSettings := [r \<mapsto> cl \<lparr>scopeUri = r, sectionName = ''haze-ls''\<rparr>],
            configurationRequests :=
              configurationRequests st' @ [\<lparr>scopeUri = r, sectionName = ''haze-ls''\<rparr>]\<rparr>)" for r
    using getDocumentSettings_query [of st' r cl] by simp
  with step cleared show ?thesis by simp
next
  case False
  with assms(1) session_guard [of params ms] have empty: "documentSettings st = Map.empty"
    by simp
  with False assms(2) have "documentSettings st' = Map.empty"
    by (simp add: onDidChangeConfiguration_def refresh_def split: option.split)
  with empty show ?thesis by simp
qed

theorem configuration_change_clears_cache_witness:
  "''a.hz'' \<in> dom (documentSettings (session configuring_params two_edits))
   \<and> documentSettings
        (handle (session configuring_params two_edits)
          (answering_client, DidChangeConfiguration \<lparr>settings = None\<rparr>)) = Map.empty
   \<and> fst (getDocumentSettings rejecting_client ''a.hz''
        (handle (session configuring_params two_edits)
          (answering_client, DidChangeConfiguration \<lparr>settings = None\<rparr>)))
       = Rejected ''request failed''
   \<and> configurationRequests (snd (getDocumentSettings rejecting_client ''a.hz''
        (handle (session configuring_params two_edits)
          (answering_client, DidChangeConfiguration \<lparr>settings = None\<rparr>))))
       = [\<lparr>scopeUri = ''a.hz'', sectionName = ''haze-ls''\<rparr>,
          \<lparr>scopeUri = ''b.hz'', sectionName = ''haze-ls''\<rparr>,
          \<lparr>scopeUri = ''a.hz'', sectionName = ''haze-ls''\<rparr>]"
proof -
  let ?st = "session configuring_params two_edits"
  let ?st' = "handle ?st (answering_client, DidChangeConfiguration \<lparr>settings = None\<rparr>)"
  have cached: "''a.hz'' \<in> dom (documentSettings ?st)"
    and sent: "configurationRequests ?st
      = [\<lparr>scopeUri = ''a.hz'', sectionName = ''haze-ls''\<rparr>,
         \<lparr>scopeUri = ''b.hz'', sectionName = ''haze-ls''\<rparr>]"
    and cap: "hasConfigurationCapability ?st"
    by (simp_all add: session_def two_edits_def onInitialize_def Let_def configuring_params_def
        initial_state_def truthy_def onDidChangeContent_state
        getDocumentSettings_def a_hz_def b_hz_def)
  from cap have sent': "configurationRequests ?st' = configurationRequests ?st"
    by (simp add: onDidChangeConfiguration_def refresh_def)
  have rejects: "rejecting_client \<lparr>scopeUri = ''a.hz'', sectionName = ''haze-ls''\<rparr>
      = Rejected ''request failed''"
    by (simp add: rejecting_client_def)
  note inst = configuration_change_clears_cache
    [of ?st configuring_params two_edits ?st' answering_client "\<lparr>settings = None\<rparr>"
      rejecting_client, OF refl refl]
  from inst have cleared: "documentSettings ?st' = Map.empty"
    by (rule conjunct1)
  from inst [THEN conjunct2, rule_format, OF cached, THEN conjunct2]
  have "getDocumentSettings rejecting_client ''a.hz'' ?st'
      = (rejecting_client \<lparr>scopeUri = ''a.hz'', sectionName = ''haze-ls''\<rparr>,
         ?st'\<lparr>documentSettings :=
              [''a.hz'' \<mapsto> rejecting_client \<lparr>scopeUri = ''a.hz'', sectionName = ''haze-ls''\<rparr>],
            configurationRequests :=
              configurationRequests ?st' @ [\<lparr>scopeUri = ''a.hz'', sectionName = ''haze-ls''\<rparr>]\<rparr>)" .
  with cached cleared sent sent' rejects show ?thesis
    by simp
qed

text \<open>
  C6. Processing the close of a document removes the settings cached for that document
  and changes nothing else: the entry of every other resource, and the rest of the
  state, are as before. When the session has the configuration capability (the only
  sessions in which settings are cached and queried), a settings get for the closed
  document then sends a new configuration request scoped to it, and the state after that
  get differs from the state before the close only in that document's entry and in the
  request sent.
\<close>

theorem close_removes_only_its_entry:
  "documentSettings (onDidClose d st) d = None
   \<and> (\<forall>r. r \<noteq> d \<longrightarrow> documentSettings (onDidClose d st) r = documentSettings st r)
   \<and> onDidClose d st = st\<lparr>documentSettings := documentSettings (onDidClose d st)\<rparr>
   \<and> (hasConfigurationCapability st
        \<longrightarrow> getDocumentSettings cl d (onDidClose d st)
            = (cl \<lparr>scopeUri = d, sectionName = ''haze-ls''\<rparr>,
               st\<lparr>documentSettings :=
                    (documentSettings st)(d \<mapsto> cl \<lparr>scopeUri = d, sectionName = ''haze-ls''\<rparr>),
                  configurationRequests :=
                    configurationRequests st @ [\<lparr>scopeUri = d, sectionName = ''haze-ls''\<rparr>]\<rparr>))"
proof (intro conjI impI allI)
  show "documentSettings (onDidClose d st) d = None"
    by (simp add: onDidClose_def)
  show "documentSettings (onDidClose d st) r = documentSettings st r" if "r \<noteq> d" for r
    using that by (simp add: onDidClose_def)
  show "onDidClose d st = st\<lparr>documentSettings := documentSettings (onDidClose d st)\<rparr>"
    by (simp add: onDidClose_def)
  assume "hasConfigurationCapability st"
  then have "hasConfigurationCapability (onDidClose d st)"
    and "documentSettings (onDidClose d st) d = None"
    by (simp_all add: onDidClose_def)
  from getDocumentSettings_query [OF this, of cl]
  show "getDocumentSettings cl d (onDidClose d st)
      = (cl \<lparr>scopeUri = d, sectionName = ''haze-ls''\<rparr>,
         st\<lparr>documentSettings :=
              (documentSettings st)(d \<mapsto> cl \<lparr>scopeUri = d, sectionName = ''haze-ls''\<rparr>),
            configurationRequests :=
              configurationRequests st @ [\<lparr>scopeUri = d, sectionName = ''haze-ls''\<rparr>]\<rparr>)"
    by (simp add: onDidClose_def)
qed

theorem close_removes_only_its_entry_witness:
  "documentSettings (session configuring_params two_edits) ''a.hz''
     = Some (Fulfilled \<lparr>maxNumberOfProblems = 100\<rparr>)
   \<and> documentSettings (onDidClose ''a.hz'' (session configuring_params two_edits)) ''a.hz'' = None
   \<and> documentSettings (onDidClose ''a.hz'' (session configuring_params two_edits)) ''b.hz''
       = Some (Fulfilled \<lparr>maxNumberOfProblems = 100\<rparr>)
   \<and> hasConfigurationCapability (session configuring_params two_edits)
   \<and> fst (getDocumentSettings rejecting_client ''a.hz''
        (onDidClose ''a.hz'' (session configuring_params two_edits)))
       = Rejected ''request failed''
   \<and> configurationRequests (snd (getDocumentSettings rejecting_client ''a.hz''
        (onDidClose ''a.hz'' (session configuring_params two_edits))))
       = [\<lparr>scopeUri = ''a.hz'', sectionName = ''haze-ls''\<rparr>,
          \<lparr>scopeUri = ''b.hz'', sectionName = ''haze-ls''\<rparr>,
          \<lparr>scopeUri = ''a.hz'', sectionName = ''haze-ls''\<rparr>]"
proof -
  let ?st = "session configuring_params two_edits"
  have a: "documentSettings ?st ''a.hz'' = Some (Fulfilled \<lparr>maxNumberOfProblems = 100\<rparr>)"
    and b: "documentSettings ?st ''b.hz'' = Some (Fulfilled \<lparr>maxNumberOfProblems = 100\<rparr>)"
    and sent: "configurationRequests ?st
      = [\<lparr>scopeUri = ''a.hz'', sectionName = ''haze-ls''\<rparr>,
         \<lparr>scopeUri = ''b.hz'', sectionName = ''haze-ls''\<rparr>]"
    and cap: "hasConfigurationCapability ?st"
    by (simp_all add: session_def two_edits_def onInitialize_def Let_def configuring_params_def
        initial_state_def truthy_def onDidChangeContent_state
        getDocumentSettings_def a_hz_def b_hz_def answering_client_def)
  have other: "''b.hz'' \<noteq> ''a.hz''"
    by simp
  have rejects: "rejecting_client \<lparr>scopeUri = ''a.hz'', sectionName = ''haze-ls''\<rparr>
      = Rejected ''request failed''"
    by (simp add: rejecting_client_def)
  note inst = close_removes_only_its_entry [of "''a.hz''" ?st rejecting_client]
  from inst have gone: "documentSettings (onDidClose ''a.hz'' ?st) ''a.hz'' = None"
    by (rule conjunct1)
  from inst [THEN conjunct2, THEN conjunct1, rule_format, OF other]
  have kept: "documentSettings (onDidClose ''a.hz'' ?st) ''b.hz''
      = documentSettings ?st ''b.hz''" .
  from inst [THEN conjunct2, THEN conjunct2, THEN conjunct2, rule_format, OF cap]
  have "getDocumentSettings rejecting_client ''a.hz'' (onDidClose ''a.hz'' ?st)
      = (rejecting_client \<lparr>scopeUri = ''a.hz'', sectionName = ''haze-ls''\<rparr>,
         ?st\<lparr>documentSettings :=
              (documentSettings ?st)
                (''a.hz'' \<mapsto> rejecting_client \<lparr>scopeUri = ''a.hz'', sectionName = ''haze-ls''\<rparr>),
            configurationRequests :=
              configurationRequests ?st @ [\<lparr>scopeUri = ''a.hz'', sectionName = ''haze-ls''\<rparr>]\<rparr>)" .
  with a b gone kept sent cap rejects show ?thesis
    by simp
qed

subsection \<open>A configuration request that fails\<close>

text \<open>
  C8, as stated, fails. In a session with the configuration capability, when the pull
  of the diagnostics of \<open>a.hz\<close>, which the document manager holds, makes the settings
  get send the configuration request and the client rejects it, the settings get yields
  the rejection, not the default settings, and the pull is rejected with the same reason
  instead of answering with a report.
\<close>

theorem configuration_failure_counterexample:
  "hasConfigurationCapability (session configuring_params [])
   \<and> open_documents ''a.hz'' = Some a_hz
   \<and> rejecting_client \<lparr>scopeUri = ''a.hz'', sectionName = ''haze-ls''\<rparr>
       = Rejected ''request failed''
   \<and> fst (getDocumentSettings rejecting_client ''a.hz'' (session configuring_params []))
       \<noteq> Fulfilled defaultSettings
   \<and> fst (diagnostics_on rejecting_client open_documents ''a.hz''
        (session configuring_params [])) = Rejected ''request failed''"
  by (simp add: session_def onInitialize_def Let_def configuring_params_def
      initial_state_def truthy_def validateTextDocument_def
      diagnostics_on_def getDocumentSettings_def a_hz_def open_documents_def
      rejecting_client_def)

text \<open>
  C8, amended. In a session with the configuration capability, for a document the
  document manager holds, there is no fall back to the default settings.
  \<^item> When no settings are cached for the document and the client rejects the
    configuration request that the pull of its diagnostics sends, the settings get
    returns the rejection, the pull is rejected with the same reason, the rejection is
    what is cached for the document, and one request was sent.
  \<^item> Every pull made in a state where the rejection is cached for the document is
    rejected with the same reason, whatever the client would answer then, and leaves the
    state as it was: no new request is sent.
  \<^item> The rejection stays cached after the pull that met it through any messages that
    do not invalidate the entry; so every later pull, in a session that has logged no
    further unhandled rejection, is rejected with the same reason.
  \<^item> When the request never settles, neither does the pull, at the request and while
    the pending answer is cached.
\<close>

theorem configuration_failure_propagates:
  assumes "hasConfigurationCapability st"
    and "documents u = Some document"
  shows "(documentSettings st (uri document) = None
        \<and> cl \<lparr>scopeUri = uri document, sectionName = ''haze-ls''\<rparr> = Rejected reason
      \<longrightarrow> fst (getDocumentSettings cl (uri document) st) = Rejected reason
        \<and> diagnostics_on cl documents u st
            = (Rejected reason,
               st\<lparr>documentSettings := (documentSettings st)(uri document \<mapsto> Rejected reason),
                  configurationRequests := configurationRequests st
                    @ [\<lparr>scopeUri = uri document, sectionName = ''haze-ls''\<rparr>]\<rparr>)
        \<and> (\<forall>ms cl' documents'.
              (\<forall>m \<in> set ms. \<not> invalidates (uri document) (snd m))
              \<and> unhandledRejections (foldl handle (snd (diagnostics_on cl documents u st)) ms)
                  = unhandledRejections st
              \<and> documents' u = Some document
            \<longrightarrow> diagnostics_on cl' documents' u
                  (foldl handle (snd (diagnostics_on cl documents u st)) ms)
                = (Rejected reason, foldl handle (snd (diagnostics_on cl documents u st)) ms)))
    \<and> (documentSettings st (uri document) = Some (Rejected reason)
      \<longrightarrow> diagnostics_on cl documents u st = (Rejected reason, st))
    \<and> (documentSettings st (uri document) = None
        \<and> cl \<lparr>scopeUri = uri document, sectionName = ''haze-ls''\<rparr> = Pending
      \<longrightarrow> fst (diagnostics_on cl documents u st) = Pending)
    \<and> (documentSettings st (uri document) = Some Pending
      \<longrightarrow> diagnostics_on cl documents u st = (Pending, st))"
proof -
  let ?r = "uri document"
  let ?q = "\<lparr>scopeUri = uri document, sectionName = ''haze-ls''\<rparr>"
  have held: "diagnostics_on cl' documents' u st' = (p', st')"
    if "hasConfigurationCapability st'" and "documentSettings st' ?r = Some p"
      and "documents' u = Some document"
      and "p' = (case p of Fulfilled s \<Rightarrow> Fulfilled \<lparr>reportKind = Full, items = []\<rparr>
                 | Rejected reason \<Rightarrow> Rejected reason | Pending \<Rightarrow> Pending)"
    for cl' documents' st' p p'
    using that
    by (simp add: prod_eq_iff diagnostics_on_result diagnostics_on_state
        getDocumentSettings_cached)
  have first: "fst (getDocumentSettings cl ?r st) = Rejected reason
        \<and> diagnostics_on cl documents u st
            = (Rejected reason,
               st\<lparr>documentSettings := (documentSettings st)(?r \<mapsto> Rejected reason),
                  configurationRequests := configurationRequests st @ [?q]\<rparr>)
        \<and> (\<forall>ms cl' documents'.
              (\<forall>m \<in> set ms. \<not> invalidates ?r (snd m))
              \<and> unhandledRejections (foldl handle (snd (diagnostics_on cl documents u st)) ms)
                  = unhandledRejections st
              \<and> documents' u = Some document
            \<longrightarrow> diagnostics_on cl' documents' u
                  (foldl handle (snd (diagnostics_on cl documents u st)) ms)
                = (Rejected reason, foldl handle (snd (diagnostics_on cl documents u st)) ms))"
    if none: "documentSettings st ?r = None" and rejects: "cl ?q = Rejected reason"
  proof -
    let ?st1 = "snd (diagnostics_on cl documents u st)"
    from assms none rejects
    have get: "getDocumentSettings cl ?r st
        = (Rejected reason,
           st\<lparr>documentSettings := (documentSettings st)(?r \<mapsto> Rejected reason),
              configurationRequests := configurationRequests st @ [?q]\<rparr>)"
      by (simp add: getDocumentSettings_query)
    with assms(2) have pull: "diagnostics_on cl documents u st
        = (Rejected reason,
           st\<lparr>documentSettings := (documentSettings st)(?r \<mapsto> Rejected reason),
              configurationRequests := configurationRequests st @ [?q]\<rparr>)"
      by (simp add: prod_eq_iff diagnostics_on_result diagnostics_on_state)
    from pull assms(1) have cap1: "hasConfigurationCapability ?st1"
      and cached1: "documentSettings ?st1 ?r = Some (Rejected reason)"
      by simp_all
    have later: "diagnostics_on cl' documents' u (foldl handle ?st1 ms)
        = (Rejected reason, foldl handle ?st1 ms)"
      if valid: "\<forall>m \<in> set ms. \<not> invalidates ?r (snd m)"
        and known': "documents' u = Some document"
      for ms cl' documents'
    proof -
      from foldl_handle_keeps [OF cap1 cached1 valid]
      have "hasConfigurationCapability (foldl handle ?st1 ms)"
        and "documentSettings (foldl handle ?st1 ms) ?r = Some (Rejected reason)"
        by simp_all
      then show ?thesis
        using known' by (rule held) simp
    qed
    from get pull later show ?thesis
      by simp
  qed
  have cachedR: "diagnostics_on cl documents u st = (Rejected reason, st)"
    if "documentSettings st ?r = Some (Rejected reason)"
    using assms(1) that assms(2) by (rule held) simp
  have pending: "fst (diagnostics_on cl documents u st) = Pending"
    if "documentSettings st ?r = None" and "cl ?q = Pending"
    using assms that by (simp add: diagnostics_on_result getDocumentSettings_query)
  have cachedP: "diagnostics_on cl documents u st = (Pending, st)"
    if "documentSettings st ?r = Some Pending"
    using assms(1) that assms(2) by (rule held) simp
  from first cachedR pending cachedP show ?thesis
    by blast
qed

theorem configuration_failure_propagates_witness:
  "hasConfigurationCapability (session configuring_params [])
   \<and> open_documents ''b.hz'' = Some b_hz
   \<and> documentSettings (session configuring_params []) (uri b_hz) = None
   \<and> rejecting_client \<lparr>scopeUri = uri b_hz, sectionName = ''haze-ls''\<rparr>
       = Rejected ''request failed''
   \<and> fst (getDocumentSettings rejecting_client (uri b_hz) (session configuring_params []))
       = Rejected ''request failed''
   \<and> fst (diagnostics_on rejecting_client open_documents ''b.hz''
        (session configuring_params [])) = Rejected ''request failed''
   \<and> unhandledRejections
        (foldl handle
          (snd (diagnostics_on rejecting_client open_documents ''b.hz''
            (session configuring_params [])))
          pulls_and_close) = []
   \<and> diagnostics_on answering_client open_documents ''b.hz''
        (foldl handle
          (snd (diagnostics_on rejecting_client open_documents ''b.hz''
            (session configuring_params [])))
          pulls_and_close)
       = (Rejected ''request failed'',
          foldl handle
            (snd (diagnostics_on rejecting_client open_documents ''b.hz''
              (session configuring_params [])))
            pulls_and_close)"
proof -
  let ?st = "session configuring_params []"
  let ?st1 = "snd (diagnostics_on rejecting_client open_documents ''b.hz'' ?st)"
  have cap: "hasConfigurationCapability ?st"
    and none: "documentSettings ?st (uri b_hz) = None"
    and quiet: "unhandledRejections ?st = []"
    by (simp_all add: session_def onInitialize_def Let_def configuring_params_def
        initial_state_def truthy_def)
  have known: "open_documents ''b.hz'' = Some b_hz"
    by (simp add: open_documents_def)
  have rejects: "rejecting_client \<lparr>scopeUri = uri b_hz, sectionName = ''haze-ls''\<rparr>
      = Rejected ''request failed''"
    by (simp add: rejecting_client_def)
  have valid: "\<forall>m \<in> set pulls_and_close. \<not> invalidates (uri b_hz) (snd m)"
    by (simp add: pulls_and_close_def b_hz_def)
  note inst = configuration_failure_propagates
    [where st = ?st and documents = open_documents and u = "''b.hz''" and document = b_hz
      and cl = rejecting_client and reason = "''request failed''",
     OF cap known, THEN conjunct1, rule_format, OF conjI, OF none rejects]
  from inst have get: "fst (getDocumentSettings rejecting_client (uri b_hz) ?st)
      = Rejected ''request failed''"
    by (rule conjunct1)
  from inst [THEN conjunct2, THEN conjunct1]
  have pull: "diagnostics_on rejecting_client open_documents ''b.hz'' ?st
      = (Rejected ''request failed'',
         ?st\<lparr>documentSettings := (documentSettings ?st)(uri b_hz \<mapsto> Rejected ''request failed''),
            configurationRequests := configurationRequests ?st
              @ [\<lparr>scopeUri = uri b_hz, sectionName = ''haze-ls''\<rparr>]\<rparr>)" .
  have survived: "unhandledRejections (foldl handle ?st1 pulls_and_close) = []"
    using quiet
    by (simp add: pulls_and_close_def onDidClose_def diagnostics_on_unhandled)
  from inst [THEN conjunct2, THEN conjunct2, rule_format,
      where ms = pulls_and_close and cl' = answering_client and documents' = open_documents]
    valid survived quiet known
  have later: "diagnostics_on answering_client open_documents ''b.hz''
        (foldl handle ?st1 pulls_and_close)
      = (Rejected ''request failed'', foldl handle ?st1 pulls_and_close)"
    by simp
  from cap known none rejects get pull survived later show ?thesis
    by simp
qed

subsection \<open>Completion\<close>

lemma resolveCase_frame:
  "label (resolveCase k item) = label item \<and> kind (resolveCase k item) = kind item
   \<and> data (resolveCase k item) = data item"
  by (cases k) (simp_all add: attach_def)

lemma resolveCase_detail:
  "detail (resolveCase k item) \<noteq> None \<and> documentation (resolveCase k item) \<noteq> None"
  by (cases k) (simp_all add: attach_def)

lemma onCompletion_data: "item \<in> set onCompletion \<Longrightarrow> data item \<noteq> None"
  by (auto simp: onCompletion_def keyword_def)


lemma resolveCase_attach:
  "\<exists>d doc. resolveCase k item = item\<lparr>detail := Some d, documentation := Some doc\<rparr>"
  by (cases k; simp add: attach_def; blast)

text \<open>
  C7. Resolving any entry of the list returned by the completion handler does not fail:
  the handler is total, and for every index in range it returns that entry with a detail
  (and a documentation) attached and nothing else changed. A resolved item is without
  detail only when the key it carried is not the key of an entry of the completion list.
\<close>

theorem resolve_of_listed_entry:
  "(\<forall>i < length onCompletion.
      \<exists>d doc. onCompletionResolve (onCompletion ! i)
        = (onCompletion ! i)\<lparr>detail := Some d, documentation := Some doc\<rparr>)
   \<and> (\<forall>item. detail (onCompletionResolve item) = None
        \<longrightarrow> data item \<notin> data ` set onCompletion)"
proof (intro conjI allI impI)
  fix i assume "i < length onCompletion"
  then have "onCompletion ! i \<in> set onCompletion" by simp
  then obtain k where "data (onCompletion ! i) = Some k"
    using onCompletion_data by blast
  then show "\<exists>d doc. onCompletionResolve (onCompletion ! i)
        = (onCompletion ! i)\<lparr>detail := Some d, documentation := Some doc\<rparr>"
    by (simp add: onCompletionResolve_def resolveCase_attach)
next
  fix item assume none: "detail (onCompletionResolve item) = None"
  have "data item = None"
  proof (cases "data item")
    case None then show ?thesis .
  next
    case (Some k)
    with none have "detail (resolveCase k item) = None"
      by (simp add: onCompletionResolve_def)
    with resolveCase_detail show ?thesis by blast
  qed
  then show "data item \<notin> data ` set onCompletion"
    using onCompletion_data by force
qed

theorem resolve_of_listed_entry_witness:
  "(7::nat) < length onCompletion
   \<and> (\<exists>d doc. onCompletionResolve (onCompletion ! 7)
        = (onCompletion ! 7)\<lparr>detail := Some d, documentation := Some doc\<rparr>)
   \<and> detail (onCompletionResolve
        \<lparr>label = ''main'', kind = OtherKind 3, data = None, detail = None,
         documentation = None\<rparr>) = None
   \<and> None \<notin> data ` set onCompletion"
proof -
  have len: "(7::nat) < length onCompletion"
    by (simp add: onCompletion_def)
  have unknown: "detail (onCompletionResolve
        \<lparr>label = ''main'', kind = OtherKind 3, data = None, detail = None,
         documentation = None\<rparr>) = None"
    by (simp add: onCompletionResolve_def)
  from resolve_of_listed_entry
  have listed: "\<forall>i < length onCompletion.
      \<exists>d doc. onCompletionResolve (onCompletion ! i)
        = (onCompletion ! i)\<lparr>detail := Some d, documentation := Some doc\<rparr>"
    and unlisted: "\<forall>item. detail (onCompletionResolve item) = None
        \<longrightarrow> data item \<notin> data ` set onCompletion"
    by blast+
  from unlisted [rule_format, OF unknown] have "None \<notin> data ` set onCompletion"
    by simp
  with listed len unknown show ?thesis
    by blast
qed

text \<open>
  C10. The entry labelled \<open>.org\<close> is in the completion list and carries the key
  \<open>Dotorg\<close>. Resolving it attaches the detail \<open>.dotorg\<close> and the documentation
  \<open>.dotorg {address}\<close>, so its detail differs from its label; for every other entry of
  the list the resolved detail is the entry's label.
\<close>

theorem resolve_dotorg:
  "\<lparr>label = ''.org'', kind = Keyword, data = Some Dotorg, detail = None,
     documentation = None\<rparr> \<in> set onCompletion
   \<and> onCompletionResolve
        \<lparr>label = ''.org'', kind = Keyword, data = Some Dotorg, detail = None,
         documentation = None\<rparr>
      = \<lparr>label = ''.org'', kind = Keyword, data = Some Dotorg, detail = Some ''.dotorg'',
         documentation = Some ''.dotorg {address}''\<rparr>
   \<and> (\<forall>item \<in> set onCompletion.
        (detail (onCompletionResolve item) = Some (label item)) = (label item \<noteq> ''.org''))"
proof (intro conjI)
  show "\<lparr>label = ''.org'', kind = Keyword, data = Some Dotorg, detail = None,
     documentation = None\<rparr> \<in> set onCompletion"
    by (simp add: onCompletion_def keyword_def)
  show "onCompletionResolve
        \<lparr>label = ''.org'', kind = Keyword, data = Some Dotorg, detail = None,
         documentation = None\<rparr>
      = \<lparr>label = ''.org'', kind = Keyword, data = Some Dotorg, detail = Some ''.dotorg'',
         documentation = Some ''.dotorg {address}''\<rparr>"
    by (simp add: onCompletionResolve_def attach_def)
  have "list_all (\<lambda>item.
      (detail (onCompletionResolve item) = Some (label item)) = (label item \<noteq> ''.org''))
      onCompletion"
    by (simp add: onCompletion_def keyword_def onCompletionResolve_def attach_def)
  then show "\<forall>item \<in> set onCompletion.
      (detail (onCompletionResolve item) = Some (label item)) = (label item \<noteq> ''.org'')"
    by (simp only: list_all_iff)
qed

theorem resolve_dotorg_witness:
  "onCompletion ! 15 \<in> set onCompletion
   \<and> label (onCompletion ! 15) = ''.org''
   \<and> detail (onCompletionResolve (onCompletion ! 15)) = Some ''.dotorg''
   \<and> onCompletion ! 7 \<in> set onCompletion
   \<and> label (onCompletion ! 7) = ''while''
   \<and> detail (onCompletionResolve (onCompletion ! 7)) = Some ''while''"
proof -
  have a: "onCompletion ! 15 \<in> set onCompletion" and b: "onCompletion ! 7 \<in> set onCompletion"
    by (simp_all add: onCompletion_def)
  have c: "label (onCompletion ! 15) = ''.org''" and d: "label (onCompletion ! 7) = ''while''"
    by (simp_all add: onCompletion_def keyword_def)
  have e: "detail (onCompletionResolve (onCompletion ! 15)) = Some ''.dotorg''"
    by (simp add: onCompletion_def keyword_def onCompletionResolve_def attach_def)
  from resolve_dotorg
  have every: "\<forall>item \<in> set onCompletion.
      (detail (onCompletionResolve item) = Some (label item)) = (label item \<noteq> ''.org'')"
    by blast
  from bspec [OF every b] d
  have "detail (onCompletionResolve (onCompletion ! 7)) = Some ''while''"
    by simp
  with a b c d e show ?thesis
    by blast
qed

end
